theory Spec2Isabelle
  imports Complex_Main "HOL-Library.Sublist"
begin

section \<open>The report handler of the users router\<close>

text \<open>
  This theory embeds the handler \<^verbatim>\<open>GET /relatorio/:usuarioId\<close> and the helper
  \<^verbatim>\<open>formatarProdutoParaExibicao\<close> of the users router.

  Conventions of the embedding:
  \<^item> a JavaScript number is an exact rational (\<^typ>\<open>rat\<close>); the rounding error of IEEE
    doubles is not part of the model. Counts are natural numbers.
  \<^item> a string is a list of 8-bit characters; a property that may be \<^verbatim>\<open>null\<close> or
    absent is an \<^typ>\<open>'a option\<close>.
  \<^item> a \<^verbatim>\<open>Map\<close> is an association list in insertion order, which is the order in
    which \<^verbatim>\<open>entries()\<close> and \<^verbatim>\<open>values()\<close> enumerate it.
  \<^item> the Prisma client is a parameter of the handler: a record of queries, each of which
    returns its rows or throws.
\<close>

subsection \<open>JavaScript primitives\<close>

text \<open>The operator \<^verbatim>\<open>a ?? b\<close>.\<close>

fun nullish :: "'a option \<Rightarrow> 'a \<Rightarrow> 'a" where
  "nullish None d = d"
| "nullish (Some v) d = v"

text \<open>Truthiness of a number-valued property: neither absent nor zero.\<close>

fun truthy_num :: "int option \<Rightarrow> bool" where
  "truthy_num None = False"
| "truthy_num (Some n) = (n \<noteq> 0)"

text \<open>
  \<^verbatim>\<open>String.prototype.trim\<close> on the characters below 256: TAB, LF, VT, FF, CR, SPACE
  and NBSP are white space.
\<close>

definition js_whitespace :: "char \<Rightarrow> bool" where
  "js_whitespace c \<longleftrightarrow>
     c \<in> set [CHR 0x09, CHR 0x0A, CHR 0x0B, CHR 0x0C, CHR 0x0D, CHR 0x20, CHR 0xA0]"

definition trim :: "string \<Rightarrow> string" where
  "trim s = rev (dropWhile js_whitespace (rev (dropWhile js_whitespace s)))"

text \<open>\<^verbatim>\<open>Map.prototype.get\<close> and \<^verbatim>\<open>Map.prototype.set\<close>: a new key goes to the end, an
  existing key keeps its position.\<close>

fun map_get :: "('k \<times> 'v) list \<Rightarrow> 'k \<Rightarrow> 'v option" where
  "map_get [] k = None"
| "map_get ((k', v) # m) k = (if k' = k then Some v else map_get m k)"

fun map_set :: "'k \<Rightarrow> 'v \<Rightarrow> ('k \<times> 'v) list \<Rightarrow> ('k \<times> 'v) list" where
  "map_set k v [] = [(k, v)]"
| "map_set k v ((k', v') # m) = (if k' = k then (k, v) # m else (k', v') # map_set k v m)"

text \<open>
  \<^verbatim>\<open>Array.prototype.sort\<close> with a comparator is a stable sort: an element goes before
  the first element of the sorted rest that the comparator does not put before it.
\<close>

fun insert_by :: "('a \<Rightarrow> 'a \<Rightarrow> rat) \<Rightarrow> 'a \<Rightarrow> 'a list \<Rightarrow> 'a list" where
  "insert_by cmp x [] = [x]"
| "insert_by cmp x (y # ys) =
     (if cmp x y \<le> 0 then x # y # ys else y # insert_by cmp x ys)"

definition js_sort :: "('a \<Rightarrow> 'a \<Rightarrow> rat) \<Rightarrow> 'a list \<Rightarrow> 'a list" where
  "js_sort cmp xs = foldr (insert_by cmp) xs []"

text \<open>\<^verbatim>\<open>slice(a, b)\<close> for indices that are not negative.\<close>

definition slice :: "nat \<Rightarrow> nat \<Rightarrow> 'a list \<Rightarrow> 'a list" where
  "slice a b xs = take (b - a) (drop a xs)"

text \<open>\<^verbatim>\<open>indexOf\<close>: the first index of a value, or -1.\<close>

fun indexOf :: "'a list \<Rightarrow> 'a \<Rightarrow> int" where
  "indexOf [] v = -1"
| "indexOf (x # xs) v =
     (if x = v then 0 else (let i = indexOf xs v in if i < 0 then -1 else i + 1))"

text \<open>
  \<^verbatim>\<open>Number(x.toFixed(f))\<close>: the multiple of \<open>10^-f\<close> nearest to \<open>x\<close>, a tie going away
  from zero.
\<close>

definition toFixed :: "nat \<Rightarrow> rat \<Rightarrow> rat" where
  "toFixed f x =
     (if x < 0 then - (rat_of_int \<lfloor>(- x) * 10 ^ f + 1 / 2\<rfloor> / 10 ^ f)
      else rat_of_int \<lfloor>x * 10 ^ f + 1 / 2\<rfloor> / 10 ^ f)"

text \<open>The decimal text of an integer, as a template literal prints it.\<close>

definition digit_char :: "nat \<Rightarrow> char" where
  "digit_char d = ''0123456789'' ! d"

function string_of_nat :: "nat \<Rightarrow> string" where
  "string_of_nat n =
     (if n < 10 then [digit_char n] else string_of_nat (n div 10) @ [digit_char (n mod 10)])"
  by pat_completeness auto
termination
  by (relation "measure (\<lambda>n. n)") auto

definition string_of_int :: "int \<Rightarrow> string" where
  "string_of_int i =
     (if i < 0 then CHR ''-'' # string_of_nat (nat (- i)) else string_of_nat (nat i))"

subsection \<open>Rows read from the persistence layer\<close>

record receita =
  r_id :: int
  r_valor :: rat
  r_categoria :: "string option"
  r_anexo :: "string option"
  r_clienteId :: "int option"

record despesa =
  d_valor :: rat
  d_categoria :: "string option"
  d_anexo :: "string option"
  d_createdAt :: nat

record cliente =
  c_id :: int
  c_nome :: string

text \<open>A row of \<^verbatim>\<open>receitaItem.groupBy\<close>: \<^verbatim>\<open>{ produtoId, _sum: { qtdBase } }\<close>.\<close>

record item_agg =
  produtoId :: int
  sum_qtdBase :: "rat option"

text \<open>
  A product object as \<^verbatim>\<open>formatarProdutoParaExibicao\<close> receives it (its parameter has
  type \<^verbatim>\<open>any\<close>): every property may be absent.
\<close>

record produto =
  p_id :: "int option"
  p_nome :: "string option"
  p_saldoBase :: "rat option"
  p_unidadeBase :: "string option"
  p_categoria :: "string option"

text \<open>The object with no property, which spreading \<^verbatim>\<open>undefined\<close> yields.\<close>

definition produto_vazio :: produto where
  "produto_vazio =
     \<lparr>p_id = None, p_nome = None, p_saldoBase = None, p_unidadeBase = None,
      p_categoria = None\<rparr>"

record produto_exibicao = produto +
  saldoDisplay :: rat
  unidadeDisplay :: string

subsection \<open>The unit normalizer\<close>

definition formatarProdutoParaExibicao :: "produto \<Rightarrow> produto_exibicao" where
  "formatarProdutoParaExibicao p =
     (let saldo = nullish (p_saldoBase p) 0 in
      if p_unidadeBase p = Some ''G'' then
        produto.extend p (produto_exibicao.fields (saldo / 1000) ''kg'')
      else if p_unidadeBase p = Some ''ML'' then
        produto.extend p (produto_exibicao.fields (saldo / 1000) ''L'')
      else
        produto.extend p (produto_exibicao.fields saldo ''un''))"

subsection \<open>The sections of the report\<close>

record totais =
  t_totalReceitas :: rat
  t_totalDespesas :: rat
  t_lucroLiquido :: rat

record categoria_contagem =
  cc_categoria :: string
  cc_contagem :: nat

record categoria_valor =
  cv_categoria :: string
  cv_valor :: rat

record produto_vendido =
  pv_nome :: "string option"
  pv_quantidade :: rat
  pv_unidade :: string

record cliente_resumo =
  nome :: string
  totalGasto :: rat
  contagem :: nat

record categoria_quantidade =
  cq_categoria :: string
  cq_quantidade :: rat

record estoque_item =
  ei_produto :: "string option"
  ei_quantidade :: rat
  ei_unidade :: "string option"

text \<open>A value of \<^verbatim>\<open>categoriasDespesasMap\<close>: \<^verbatim>\<open>{ count, total }\<close>.\<close>

record despesa_bucket =
  b_count :: nat
  b_total :: rat

record secao_receitas =
  rc_categoriasMaisVendidas :: "categoria_contagem list"
  rc_produtosMaisVendidos :: "produto_vendido list"
  rc_totalVendas :: nat
  rc_valorTotalVendas :: rat
  rc_vendasSemItens :: nat
  rc_vendasSemAnexo :: nat

record secao_despesas =
  dp_categoriasMaisDespesas :: "categoria_contagem list"
  dp_valorGastoCategorias :: "categoria_valor list"
  dp_despesasSemAnexo :: nat

record secao_clientes =
  cl_clientesQueMaisGastaram :: "cliente_resumo list"
  cl_clientesComMaisCompras :: "cliente_resumo list"
  cl_totalClientesRegistrados :: nat

record secao_estoque =
  es_categoriasEstoque :: "categoria_quantidade list"
  es_maiorQtdUnidade :: "estoque_item list"
  es_maiorQtdKg :: "estoque_item list"
  es_maiorQtdMl :: "estoque_item list"

record relatorio =
  totais :: totais
  receitas :: secao_receitas
  despesas :: secao_despesas
  clientes :: secao_clientes
  estoque :: secao_estoque

subsection \<open>Totals\<close>

definition totalReceitas :: "receita list \<Rightarrow> rat" where
  "totalReceitas rs = foldl (\<lambda>acc r. acc + r_valor r) 0 rs"

definition totalDespesas :: "despesa list \<Rightarrow> rat" where
  "totalDespesas ds = foldl (\<lambda>acc d. acc + d_valor d) 0 ds"

definition lucroLiquido :: "receita list \<Rightarrow> despesa list \<Rightarrow> rat" where
  "lucroLiquido rs ds = totalReceitas rs - totalDespesas ds"

subsection \<open>Revenue and expense breakdown\<close>

text \<open>The test \<^verbatim>\<open>!x.anexo || x.anexo.trim() === ""\<close>.\<close>

fun sem_anexo :: "string option \<Rightarrow> bool" where
  "sem_anexo None = True"
| "sem_anexo (Some s) = (s = [] \<or> trim s = [])"

definition vendasSemAnexo :: "receita list \<Rightarrow> nat" where
  "vendasSemAnexo rs = length (filter (\<lambda>r. sem_anexo (r_anexo r)) rs)"

definition totalVendas :: "receita list \<Rightarrow> nat" where
  "totalVendas rs = length rs"

text \<open>The guard \<^verbatim>\<open>if (r.categoria)\<close> holds when the category is present and not the empty
  string.\<close>

definition categoriasReceitasMap :: "receita list \<Rightarrow> (string \<times> nat) list" where
  "categoriasReceitasMap rs =
     foldl (\<lambda>m r.
        case r_categoria r of
          None \<Rightarrow> m
        | Some cat \<Rightarrow>
            if cat = [] then m else map_set cat (nullish (map_get m cat) 0 + 1) m)
       [] rs"

definition categoriasMaisVendidas :: "receita list \<Rightarrow> categoria_contagem list" where
  "categoriasMaisVendidas rs =
     map (\<lambda>(categoria, contagem). \<lparr>cc_categoria = categoria, cc_contagem = contagem\<rparr>)
       (slice 0 3
         (js_sort (\<lambda>(_, a) (_, b). rat_of_nat b - rat_of_nat a) (categoriasReceitasMap rs)))"

definition despesasSemAnexo :: "despesa list \<Rightarrow> nat" where
  "despesasSemAnexo ds = length (filter (\<lambda>d. sem_anexo (d_anexo d)) ds)"

text \<open>The bucket label of an expense:
  \<^verbatim>\<open>d.categoria && d.categoria.trim() !== "" ? d.categoria : "Sem Categoria"\<close>.\<close>

fun cat_despesa :: "string option \<Rightarrow> string" where
  "cat_despesa None = ''Sem Categoria''"
| "cat_despesa (Some c) = (if c \<noteq> [] \<and> trim c \<noteq> [] then c else ''Sem Categoria'')"

definition categoriasDespesasMap :: "despesa list \<Rightarrow> (string \<times> despesa_bucket) list" where
  "categoriasDespesasMap ds =
     foldl (\<lambda>m d.
        let cat = cat_despesa (d_categoria d);
            valor = d_valor d;
            atual = nullish (map_get m cat) \<lparr>b_count = 0, b_total = 0\<rparr>
        in map_set cat \<lparr>b_count = b_count atual + 1, b_total = b_total atual + valor\<rparr> m)
       [] ds"

definition categoriasMaisDespesas :: "despesa list \<Rightarrow> categoria_contagem list" where
  "categoriasMaisDespesas ds =
     map (\<lambda>(categoria, data). \<lparr>cc_categoria = categoria, cc_contagem = b_count data\<rparr>)
       (slice 0 3
         (js_sort (\<lambda>(_, a) (_, b). rat_of_nat (b_count b) - rat_of_nat (b_count a))
           (categoriasDespesasMap ds)))"

definition valorGastoCategorias :: "despesa list \<Rightarrow> categoria_valor list" where
  "valorGastoCategorias ds =
     map (\<lambda>(categoria, data). \<lparr>cv_categoria = categoria, cv_valor = b_total data\<rparr>)
       (slice 0 3
         (js_sort (\<lambda>(_, a) (_, b). b_total b - b_total a) (categoriasDespesasMap ds)))"

subsection \<open>Client breakdown\<close>

definition receitasComCliente :: "receita list \<Rightarrow> receita list" where
  "receitasComCliente rs = filter (\<lambda>r. truthy_num (r_clienteId r)) rs"

text \<open>The client ids without repetition:
  \<^verbatim>\<open>map(r => r.clienteId!).filter((v, i, a) => a.indexOf(v) === i)\<close>.\<close>

definition clientesIds :: "receita list \<Rightarrow> int list" where
  "clientesIds rcc =
     (let a = List.map_filter r_clienteId rcc
      in map fst (filter (\<lambda>(v, i). indexOf a v = i) (zip a (map int [0..<length a]))))"

definition clienteNomeMap :: "cliente list \<Rightarrow> (int \<times> string) list" where
  "clienteNomeMap clientesData = foldl (\<lambda>m c. map_set (c_id c) (c_nome c) m) [] clientesData"

text \<open>The loop runs over \<^verbatim>\<open>receitasComCliente\<close>, where every entry has a client id;
  an entry without one would leave the map as it is.\<close>

definition clientesMap ::
  "receita list \<Rightarrow> (int \<times> string) list \<Rightarrow> (int \<times> cliente_resumo) list" where
  "clientesMap rcc nomes =
     foldl (\<lambda>m r.
        case r_clienteId r of
          None \<Rightarrow> m
        | Some cid \<Rightarrow>
            let nm = nullish (map_get nomes cid) (''Cliente ID '' @ string_of_int cid);
                valor = r_valor r;
                atual = nullish (map_get m cid) \<lparr>nome = nm, totalGasto = 0, contagem = 0\<rparr>
            in map_set cid
                 (atual\<lparr>totalGasto := totalGasto atual + valor,
                        contagem := contagem atual + 1\<rparr>) m)
       [] rcc"

definition clientesQueMaisGastaram :: "(int \<times> cliente_resumo) list \<Rightarrow> cliente_resumo list" where
  "clientesQueMaisGastaram cm =
     slice 0 5 (js_sort (\<lambda>a b. totalGasto b - totalGasto a) (map snd cm))"

definition clientesComMaisCompras :: "(int \<times> cliente_resumo) list \<Rightarrow> cliente_resumo list" where
  "clientesComMaisCompras cm =
     slice 0 3 (js_sort (\<lambda>a b. rat_of_nat (contagem b) - rat_of_nat (contagem a)) (map snd cm))"

subsection \<open>Products sold and stock\<close>

definition idsVendidos :: "item_agg list \<Rightarrow> int list" where
  "idsVendidos agg = map produtoId agg"

text \<open>The body of the \<^verbatim>\<open>map\<close> that builds \<^verbatim>\<open>produtosMaisVendidos\<close>: the product found for
  the row, or nothing, spread under the summed quantity and passed to the normalizer.\<close>

definition produtoVendido :: "produto list \<Rightarrow> item_agg \<Rightarrow> produto_vendido" where
  "produtoVendido info item =
     (let produtoInfo = find (\<lambda>p. p_id p = Some (produtoId item)) info;
          produtoFormatado =
            formatarProdutoParaExibicao
              ((case produtoInfo of None \<Rightarrow> produto_vazio | Some p \<Rightarrow> p)
                 \<lparr>p_saldoBase := Some (nullish (sum_qtdBase item) 0)\<rparr>)
      in \<lparr>pv_nome = p_nome produtoFormatado,
          pv_quantidade = saldoDisplay produtoFormatado,
          pv_unidade = unidadeDisplay produtoFormatado\<rparr>)"

definition produtosMaisVendidos :: "item_agg list \<Rightarrow> produto list \<Rightarrow> produto_vendido list" where
  "produtosMaisVendidos agg info = map (produtoVendido info) agg"

definition receitasIds :: "receita list \<Rightarrow> int list" where
  "receitasIds rs = map r_id rs"

definition vendasSemItens :: "receita list \<Rightarrow> int list \<Rightarrow> nat" where
  "vendasSemItens rs receitasComItens =
     length (filter (\<lambda>i. i \<notin> set receitasComItens) (receitasIds rs))"

definition produtosFormatadosEstoque :: "produto list \<Rightarrow> produto_exibicao list" where
  "produtosFormatadosEstoque ps = map formatarProdutoParaExibicao ps"

text \<open>The guard \<^verbatim>\<open>if (p.categoria)\<close>, as for the revenue categories.\<close>

definition categoriasEstoqueMap :: "produto_exibicao list \<Rightarrow> (string \<times> rat) list" where
  "categoriasEstoqueMap pfs =
     foldl (\<lambda>m p.
        case p_categoria p of
          None \<Rightarrow> m
        | Some cat \<Rightarrow>
            if cat = [] then m
            else map_set cat (nullish (map_get m cat) 0 + saldoDisplay p) m)
       [] pfs"

definition categoriasEstoque :: "produto_exibicao list \<Rightarrow> categoria_quantidade list" where
  "categoriasEstoque pfs =
     map (\<lambda>(categoria, quantidade).
            \<lparr>cq_categoria = categoria, cq_quantidade = toFixed 2 quantidade\<rparr>)
       (slice 0 3 (js_sort (\<lambda>(_, a) (_, b). b - a) (categoriasEstoqueMap pfs)))"

definition estoquePorUnidade :: "produto_exibicao list \<Rightarrow> estoque_item list" where
  "estoquePorUnidade pfs =
     map (\<lambda>p. \<lparr>ei_produto = p_nome p, ei_quantidade = toFixed 0 (saldoDisplay p),
               ei_unidade = None\<rparr>)
       (slice 0 3
         (js_sort (\<lambda>a b. saldoDisplay b - saldoDisplay a)
           (filter (\<lambda>p. unidadeDisplay p = ''un'') pfs)))"

definition estoquePorKg :: "produto_exibicao list \<Rightarrow> estoque_item list" where
  "estoquePorKg pfs =
     map (\<lambda>p. \<lparr>ei_produto = p_nome p, ei_quantidade = toFixed 2 (saldoDisplay p),
               ei_unidade = Some ''Kg''\<rparr>)
       (slice 0 3
         (js_sort (\<lambda>a b. saldoDisplay b - saldoDisplay a)
           (filter (\<lambda>p. unidadeDisplay p = ''kg'') pfs)))"

definition estoquePorL :: "produto_exibicao list \<Rightarrow> estoque_item list" where
  "estoquePorL pfs =
     map (\<lambda>p. \<lparr>ei_produto = p_nome p, ei_quantidade = toFixed 2 (saldoDisplay p),
               ei_unidade = Some ''L''\<rparr>)
       (slice 0 3
         (js_sort (\<lambda>a b. saldoDisplay b - saldoDisplay a)
           (filter (\<lambda>p. unidadeDisplay p = ''L'') pfs)))"

subsection \<open>The persistence layer and the handler\<close>

text \<open>What a rejected query throws.\<close>

datatype prisma_error = PrismaError string

text \<open>
  The eight queries of the handler, in the order in which it awaits them. Each takes the
  part of its \<^verbatim>\<open>where\<close> clause that varies: the owner, or the list of ids.
\<close>

record prisma =
  receita_findMany :: "string \<Rightarrow> prisma_error + receita list"
  despesa_findMany :: "string \<Rightarrow> prisma_error + despesa list"
  cliente_findMany :: "int list \<Rightarrow> prisma_error + cliente list"
  cliente_count :: "string \<Rightarrow> prisma_error + nat"
  receitaItem_groupBy :: "string \<Rightarrow> prisma_error + item_agg list"
  produto_findMany_ids :: "int list \<Rightarrow> prisma_error + produto list"
  receitaItem_findMany :: "int list \<Rightarrow> prisma_error + int list"
  produto_findMany_estoque :: "string \<Rightarrow> prisma_error + produto list"

datatype resposta = Status200 relatorio | Status500 string

text \<open>The body of the \<^verbatim>\<open>catch\<close> block: status 500 with the text
  \<^verbatim>\<open>Erro ao gerar relat\<close>...\<^verbatim>\<open>rio\<close>, its accented letter in UTF-8.\<close>

definition erro_relatorio :: resposta where
  "erro_relatorio = Status500 (''Erro ao gerar relat'' @ [CHR 0xC3, CHR 0xB3] @ ''rio'')"

definition get_relatorio :: "prisma \<Rightarrow> string \<Rightarrow> resposta" where
  "get_relatorio db usuarioId =
     (case receita_findMany db usuarioId of
        Inl e \<Rightarrow> erro_relatorio
      | Inr rs \<Rightarrow>
     (case despesa_findMany db usuarioId of
        Inl e \<Rightarrow> erro_relatorio
      | Inr ds \<Rightarrow>
     (case cliente_findMany db (clientesIds (receitasComCliente rs)) of
        Inl e \<Rightarrow> erro_relatorio
      | Inr clientesData \<Rightarrow>
     (case cliente_count db usuarioId of
        Inl e \<Rightarrow> erro_relatorio
      | Inr totalClientes \<Rightarrow>
     (case receitaItem_groupBy db usuarioId of
        Inl e \<Rightarrow> erro_relatorio
      | Inr produtosVendidosAgg \<Rightarrow>
     (case produto_findMany_ids db (idsVendidos produtosVendidosAgg) of
        Inl e \<Rightarrow> erro_relatorio
      | Inr produtosVendidosInfo \<Rightarrow>
     (case receitaItem_findMany db (receitasIds rs) of
        Inl e \<Rightarrow> erro_relatorio
      | Inr receitasComItens \<Rightarrow>
     (case produto_findMany_estoque db usuarioId of
        Inl e \<Rightarrow> erro_relatorio
      | Inr produtosEmEstoque \<Rightarrow>
          (let cm = clientesMap (receitasComCliente rs) (clienteNomeMap clientesData);
               pfs = produtosFormatadosEstoque produtosEmEstoque
           in Status200
            \<lparr>totais =
               \<lparr>t_totalReceitas = totalReceitas rs,
                t_totalDespesas = totalDespesas ds,
                t_lucroLiquido = lucroLiquido rs ds\<rparr>,
             receitas =
               \<lparr>rc_categoriasMaisVendidas = categoriasMaisVendidas rs,
                rc_produtosMaisVendidos =
                  produtosMaisVendidos produtosVendidosAgg produtosVendidosInfo,
                rc_totalVendas = totalVendas rs,
                rc_valorTotalVendas = totalReceitas rs,
                rc_vendasSemItens = vendasSemItens rs receitasComItens,
                rc_vendasSemAnexo = vendasSemAnexo rs\<rparr>,
             despesas =
               \<lparr>dp_categoriasMaisDespesas = categoriasMaisDespesas ds,
                dp_valorGastoCategorias = valorGastoCategorias ds,
                dp_despesasSemAnexo = despesasSemAnexo ds\<rparr>,
             clientes =
               \<lparr>cl_clientesQueMaisGastaram = clientesQueMaisGastaram cm,
                cl_clientesComMaisCompras = clientesComMaisCompras cm,
                cl_totalClientesRegistrados = totalClientes\<rparr>,
             estoque =
               \<lparr>es_categoriasEstoque = categoriasEstoque pfs,
                es_maiorQtdUnidade = estoquePorUnidade pfs,
                es_maiorQtdKg = estoquePorKg pfs,
                es_maiorQtdMl = estoquePorL pfs\<rparr>\<rparr>)))))))))"

subsection \<open>Notions used to state the properties\<close>

text \<open>The distinct values of a list, each at the place of its first occurrence.\<close>

fun encounter_order :: "'a list \<Rightarrow> 'a list" where
  "encounter_order [] = []"
| "encounter_order (x # xs) = x # filter (\<lambda>y. y \<noteq> x) (encounter_order xs)"


text \<open>Some query that the handler awaits throws.\<close>

definition retrieval_failed :: "prisma \<Rightarrow> string \<Rightarrow> bool" where
  "retrieval_failed db usuarioId \<longleftrightarrow>
     (case receita_findMany db usuarioId of
        Inl e \<Rightarrow> True
      | Inr rs \<Rightarrow>
          isl (despesa_findMany db usuarioId) \<or>
          isl (cliente_findMany db (clientesIds (receitasComCliente rs))) \<or>
          isl (cliente_count db usuarioId) \<or>
          (case receitaItem_groupBy db usuarioId of
             Inl e \<Rightarrow> True
           | Inr agg \<Rightarrow> isl (produto_findMany_ids db (idsVendidos agg))) \<or>
          isl (receitaItem_findMany db (receitasIds rs)) \<or>
          isl (produto_findMany_estoque db usuarioId))"

text \<open>The categories that the two bucketing loops read.\<close>

definition sem_categoria :: "string option \<Rightarrow> bool" where
  "sem_categoria c \<longleftrightarrow> c = None \<or> c = Some []"


subsection \<open>Example data\<close>

definition mk_receita :: "int \<Rightarrow> rat \<Rightarrow> string option \<Rightarrow> int option \<Rightarrow> receita" where
  "mk_receita i v c k =
     \<lparr>r_id = i, r_valor = v, r_categoria = c, r_anexo = None, r_clienteId = k\<rparr>"

definition mk_despesa :: "rat \<Rightarrow> string option \<Rightarrow> despesa" where
  "mk_despesa v c = \<lparr>d_valor = v, d_categoria = c, d_anexo = None, d_createdAt = 0\<rparr>"

definition mk_produto :: "string \<Rightarrow> rat \<Rightarrow> string \<Rightarrow> string option \<Rightarrow> produto" where
  "mk_produto n q u c =
     \<lparr>p_id = None, p_nome = Some n, p_saldoBase = Some q, p_unidadeBase = Some u,
      p_categoria = c\<rparr>"

definition receitas_exemplo :: "receita list" where
  "receitas_exemplo =
     [mk_receita 1 100 (Some ''servico'') (Some 7),
      mk_receita 2 50 (Some []) None,
      mk_receita 3 60 (Some ''venda'') (Some 7),
      mk_receita 4 40 None (Some 9),
      mk_receita 5 10 (Some ''venda'') None]"

definition despesas_exemplo :: "despesa list" where
  "despesas_exemplo =
     [mk_despesa 30 (Some ''aluguel''), mk_despesa 20 (Some []), mk_despesa 5 None]"

definition estoque_exemplo :: "produto list" where
  "estoque_exemplo =
     [mk_produto ''farinha'' 2500 ''G'' (Some ''secos''),
      mk_produto ''leite'' 2500 ''ML'' None,
      mk_produto ''caixa'' 7 ''UN'' (Some []),
      mk_produto ''arroz'' 1000 ''G'' (Some ''secos'')]"

text \<open>A persistence layer in which client 7 and product 2 are referenced but not found.\<close>

definition db_exemplo :: prisma where
  "db_exemplo =
     \<lparr>receita_findMany = (\<lambda>u. Inr receitas_exemplo),
      despesa_findMany = (\<lambda>u. Inr despesas_exemplo),
      cliente_findMany = (\<lambda>ids. Inr [\<lparr>c_id = 9, c_nome = ''Ana''\<rparr>]),
      cliente_count = (\<lambda>u. Inr 2),
      receitaItem_groupBy =
        (\<lambda>u. Inr [\<lparr>produtoId = 1, sum_qtdBase = Some 2500\<rparr>,
                  \<lparr>produtoId = 2, sum_qtdBase = Some 7\<rparr>]),
      produto_findMany_ids =
        (\<lambda>ids. Inr [\<lparr>p_id = Some 1, p_nome = Some ''farinha'', p_saldoBase = None,
                      p_unidadeBase = Some ''G'', p_categoria = None\<rparr>]),
      receitaItem_findMany = (\<lambda>ids. Inr [1, 3]),
      produto_findMany_estoque = (\<lambda>u. Inr estoque_exemplo)\<rparr>"

text \<open>The same persistence layer with a client count that throws.\<close>

definition db_falha :: prisma where
  "db_falha = db_exemplo\<lparr>cliente_count := (\<lambda>u. Inl (PrismaError ''timeout''))\<rparr>"


text \<open>The report of the handler on \<open>db_exemplo\<close>.\<close>

definition relatorio_exemplo :: relatorio where
  "relatorio_exemplo =
     \<lparr>totais = \<lparr>t_totalReceitas = 260, t_totalDespesas = 55, t_lucroLiquido = 205\<rparr>,
      receitas =
        \<lparr>rc_categoriasMaisVendidas =
           [\<lparr>cc_categoria = ''venda'', cc_contagem = 2\<rparr>,
            \<lparr>cc_categoria = ''servico'', cc_contagem = 1\<rparr>],
         rc_produtosMaisVendidos =
           [\<lparr>pv_nome = Some ''farinha'', pv_quantidade = 5 / 2, pv_unidade = ''kg''\<rparr>,
            \<lparr>pv_nome = None, pv_quantidade = 7, pv_unidade = ''un''\<rparr>],
         rc_totalVendas = 5,
         rc_valorTotalVendas = 260,
         rc_vendasSemItens = 3,
         rc_vendasSemAnexo = 5\<rparr>,
      despesas =
        \<lparr>dp_categoriasMaisDespesas =
           [\<lparr>cc_categoria = ''Sem Categoria'', cc_contagem = 2\<rparr>,
            \<lparr>cc_categoria = ''aluguel'', cc_contagem = 1\<rparr>],
         dp_valorGastoCategorias =
           [\<lparr>cv_categoria = ''aluguel'', cv_valor = 30\<rparr>,
            \<lparr>cv_categoria = ''Sem Categoria'', cv_valor = 25\<rparr>],
         dp_despesasSemAnexo = 3\<rparr>,
      clientes =
        \<lparr>cl_clientesQueMaisGastaram =
           [\<lparr>nome = ''Cliente ID 7'', totalGasto = 160, contagem = 2\<rparr>,
            \<lparr>nome = ''Ana'', totalGasto = 40, contagem = 1\<rparr>],
         cl_clientesComMaisCompras =
           [\<lparr>nome = ''Cliente ID 7'', totalGasto = 160, contagem = 2\<rparr>,
            \<lparr>nome = ''Ana'', totalGasto = 40, contagem = 1\<rparr>],
         cl_totalClientesRegistrados = 2\<rparr>,
      estoque =
        \<lparr>es_categoriasEstoque = [\<lparr>cq_categoria = ''secos'', cq_quantidade = 7 / 2\<rparr>],
         es_maiorQtdUnidade =
           [\<lparr>ei_produto = Some ''caixa'', ei_quantidade = 7, ei_unidade = None\<rparr>],
         es_maiorQtdKg =
           [\<lparr>ei_produto = Some ''farinha'', ei_quantidade = 5 / 2, ei_unidade = Some ''Kg''\<rparr>,
            \<lparr>ei_produto = Some ''arroz'', ei_quantidade = 1, ei_unidade = Some ''Kg''\<rparr>],
         es_maiorQtdMl =
           [\<lparr>ei_produto = Some ''leite'', ei_quantidade = 5 / 2, ei_unidade = Some ''L''\<rparr>]\<rparr>\<rparr>"

section \<open>Auxiliary lemmas\<close>

subsection \<open>Sorting\<close>

lemma insert_by_insort_key:
  assumes "\<And>x y. cmp x y \<le> 0 \<longleftrightarrow> g x \<le> (g y :: rat)"
  shows "insert_by cmp x ys = insort_key g x ys"
  by (induction ys) (simp_all add: assms)

lemma js_sort_sort_key:
  assumes "\<And>x y. cmp x y \<le> 0 \<longleftrightarrow> g x \<le> (g y :: rat)"
  shows "js_sort cmp xs = sort_key g xs"
proof -
  have "insert_by cmp = insort_key g"
    using insert_by_insort_key [of cmp g, OF assms] by (intro ext)
  then show ?thesis
    by (simp add: js_sort_def sort_key_def)
qed



lemma set_js_sort: "set (js_sort (\<lambda>x y. f y - f x) xs) = set xs"
proof -
  have "js_sort (\<lambda>x y. f y - f x) xs = sort_key (\<lambda>x. - f x) xs"
    by (rule js_sort_sort_key) simp
  then show ?thesis by simp
qed

lemma length_js_sort: "length (js_sort cmp xs) = length xs"
proof -
  have "length (insert_by cmp x ys) = Suc (length ys)" for x ys
    by (induction ys) simp_all
  then show ?thesis
    unfolding js_sort_def by (induction xs) simp_all
qed

lemma set_insert_by: "set (insert_by cmp x ys) = insert x (set ys)"
  by (induction ys) auto

lemma set_js_sort_any: "set (js_sort cmp xs) = set xs"
  unfolding js_sort_def by (induction xs) (simp_all add: set_insert_by)

subsection \<open>Maps and grouping loops\<close>

lemma map_get_map_set: "map_get (map_set k v m) k' = (if k' = k then Some v else map_get m k')"
  by (induction m) auto

lemma map_get_None_iff: "map_get m k = None \<longleftrightarrow> k \<notin> fst ` set m"
  by (induction m) (auto simp: image_iff split: if_splits)

lemma keys_map_set:
  "map fst (map_set k v m) = (if k \<in> fst ` set m then map fst m else map fst m @ [k])"
  by (induction m) (force simp: image_iff)+

lemma map_get_in_set: "map_get m k = Some v \<Longrightarrow> (k, v) \<in> set m"
  by (induction m) (auto split: if_splits)

lemma filter_notin_filter_neq:
  "k \<in> A \<Longrightarrow> filter (\<lambda>y. y \<noteq> k \<and> y \<notin> A) ys = filter (\<lambda>y. y \<notin> A) ys"
  by (induction ys) auto

lemma foldl_keys:
  assumes step: "\<And>m x. map fst (step m x) =
      (case key x of None \<Rightarrow> map fst m
       | Some k \<Rightarrow> if k \<in> fst ` set m then map fst m else map fst m @ [k])"
  shows "map fst (foldl step m xs) =
     map fst m @ filter (\<lambda>k. k \<notin> fst ` set m) (encounter_order (List.map_filter key xs))"
proof (induction xs arbitrary: m)
  case Nil
  then show ?case by (simp add: List.map_filter_simps)
next
  case (Cons x xs)
  note IH = Cons [of "step m x"]
  show ?case
  proof (cases "key x")
    case None
    then have keys: "map fst (step m x) = map fst m" by (simp add: step)
    have img: "fst ` set (step m x) = fst ` set m"
      using arg_cong [OF keys, of set] by simp
    show ?thesis
      using IH None unfolding keys img by (simp add: List.map_filter_simps)
  next
    case (Some k)
    show ?thesis
    proof (cases "k \<in> fst ` set m")
      case True
      then have keys: "map fst (step m x) = map fst m" by (simp add: step Some)
      have img: "fst ` set (step m x) = fst ` set m"
        using arg_cong [OF keys, of set] by simp
      show ?thesis
        using IH True unfolding keys img
        by (simp add: List.map_filter_simps Some filter_notin_filter_neq)
    next
      case False
      then have keys: "map fst (step m x) = map fst m @ [k]" by (simp add: step Some)
      have img: "fst ` set (step m x) = insert k (fst ` set m)"
        using arg_cong [OF keys, of set] by simp
      show ?thesis
        using IH False unfolding keys img
        by (simp add: List.map_filter_simps Some)
    qed
  qed
qed

lemma foldl_keys_empty:
  assumes "\<And>m x. map fst (step m x) =
      (case key x of None \<Rightarrow> map fst m
       | Some k \<Rightarrow> if k \<in> fst ` set m then map fst m else map fst m @ [k])"
  shows "map fst (foldl step [] xs) = encounter_order (List.map_filter key xs)"
  using foldl_keys [of step key "[]" xs, OF assms] by simp

lemma foldl_filter_skip:
  assumes "\<And>m x. \<not> P x \<Longrightarrow> step m x = m"
  shows "foldl step m (filter P xs) = foldl step m xs"
  by (induction xs arbitrary: m) (simp_all add: assms)


lemma set_encounter_order: "set (encounter_order xs) = set xs"
  by (induction xs) auto

lemma set_map_filter: "set (List.map_filter f xs) = {y. \<exists>x\<in>set xs. f x = Some y}"
  by (induction xs) (auto simp: List.map_filter_simps split: option.splits)

subsection \<open>The four grouping loops of the handler\<close>

lemma keys_categoriasReceitasMap:
  "map fst (categoriasReceitasMap rs) =
     encounter_order
       (List.map_filter (\<lambda>r. if sem_categoria (r_categoria r) then None else r_categoria r) rs)"
  unfolding categoriasReceitasMap_def
  by (rule foldl_keys_empty)
     (auto simp: keys_map_set sem_categoria_def split: option.splits)



lemma keys_categoriasEstoqueMap:
  "map fst (categoriasEstoqueMap pfs) =
     encounter_order
       (List.map_filter (\<lambda>p. if sem_categoria (p_categoria p) then None else p_categoria p) pfs)"
  unfolding categoriasEstoqueMap_def
  by (rule foldl_keys_empty)
     (auto simp: keys_map_set sem_categoria_def split: option.splits)

lemma categoriasReceitasMap_filter:
  "categoriasReceitasMap (filter (\<lambda>r. \<not> sem_categoria (r_categoria r)) rs) =
     categoriasReceitasMap rs"
  unfolding categoriasReceitasMap_def
  by (rule foldl_filter_skip) (auto simp: sem_categoria_def split: option.splits)

lemma categoriasEstoqueMap_filter:
  "categoriasEstoqueMap (filter (\<lambda>p. \<not> sem_categoria (p_categoria p)) pfs) =
     categoriasEstoqueMap pfs"
  unfolding categoriasEstoqueMap_def
  by (rule foldl_filter_skip) (auto simp: sem_categoria_def split: option.splits)

lemma p_categoria_formatar [simp]:
  "p_categoria (formatarProdutoParaExibicao p) = p_categoria p"
  by (simp add: formatarProdutoParaExibicao_def produto.defs produto_exibicao.defs Let_def)

lemma produtosFormatadosEstoque_filter:
  "produtosFormatadosEstoque (filter (\<lambda>p. \<not> sem_categoria (p_categoria p)) ps) =
     filter (\<lambda>p. \<not> sem_categoria (p_categoria p)) (produtosFormatadosEstoque ps)"
  by (simp add: produtosFormatadosEstoque_def filter_map comp_def)

lemma foldl_map_get:
  assumes step: "\<And>m x. map_get (step m x) k =
      (if key x = Some k then Some (upd x (map_get m k)) else map_get m k)"
  shows "map_get (foldl step m xs) k =
     foldl (\<lambda>v x. if key x = Some k then Some (upd x v) else v) (map_get m k) xs"
  by (induction xs arbitrary: m) (simp_all add: step)






subsection \<open>The handler\<close>

lemma get_relatorio_ok:
  assumes "receita_findMany db u = Inr rs"
    and "despesa_findMany db u = Inr ds"
    and "cliente_findMany db (clientesIds (receitasComCliente rs)) = Inr cs"
    and "cliente_count db u = Inr n"
    and "receitaItem_groupBy db u = Inr agg"
    and "produto_findMany_ids db (idsVendidos agg) = Inr info"
    and "receitaItem_findMany db (receitasIds rs) = Inr its"
    and "produto_findMany_estoque db u = Inr ps"
  shows "get_relatorio db u = Status200
     \<lparr>totais =
        \<lparr>t_totalReceitas = totalReceitas rs,
         t_totalDespesas = totalDespesas ds,
         t_lucroLiquido = lucroLiquido rs ds\<rparr>,
      receitas =
        \<lparr>rc_categoriasMaisVendidas = categoriasMaisVendidas rs,
         rc_produtosMaisVendidos = produtosMaisVendidos agg info,
         rc_totalVendas = totalVendas rs,
         rc_valorTotalVendas = totalReceitas rs,
         rc_vendasSemItens = vendasSemItens rs its,
         rc_vendasSemAnexo = vendasSemAnexo rs\<rparr>,
      despesas =
        \<lparr>dp_categoriasMaisDespesas = categoriasMaisDespesas ds,
         dp_valorGastoCategorias = valorGastoCategorias ds,
         dp_despesasSemAnexo = despesasSemAnexo ds\<rparr>,
      clientes =
        \<lparr>cl_clientesQueMaisGastaram =
           clientesQueMaisGastaram (clientesMap (receitasComCliente rs) (clienteNomeMap cs)),
         cl_clientesComMaisCompras =
           clientesComMaisCompras (clientesMap (receitasComCliente rs) (clienteNomeMap cs)),
         cl_totalClientesRegistrados = n\<rparr>,
      estoque =
        \<lparr>es_categoriasEstoque = categoriasEstoque (produtosFormatadosEstoque ps),
         es_maiorQtdUnidade = estoquePorUnidade (produtosFormatadosEstoque ps),
         es_maiorQtdKg = estoquePorKg (produtosFormatadosEstoque ps),
         es_maiorQtdMl = estoquePorL (produtosFormatadosEstoque ps)\<rparr>\<rparr>"
  unfolding get_relatorio_def by (simp add: assms Let_def)

lemma get_relatorio_failed:
  "retrieval_failed db u \<Longrightarrow> get_relatorio db u = erro_relatorio"
  unfolding get_relatorio_def retrieval_failed_def
  by (auto split: sum.splits)

lemma get_relatorio_not_failed:
  assumes "\<not> retrieval_failed db u"
  obtains rs ds cs n agg info its ps where
    "receita_findMany db u = Inr rs"
    "despesa_findMany db u = Inr ds"
    "cliente_findMany db (clientesIds (receitasComCliente rs)) = Inr cs"
    "cliente_count db u = Inr n"
    "receitaItem_groupBy db u = Inr agg"
    "produto_findMany_ids db (idsVendidos agg) = Inr info"
    "receitaItem_findMany db (receitasIds rs) = Inr its"
    "produto_findMany_estoque db u = Inr ps"
  using assms unfolding retrieval_failed_def
  by (auto split: sum.splits simp: isl_def) (metis sum.exhaust)+

lemma erro_relatorio_not_200: "erro_relatorio \<noteq> Status200 rep"
  by (simp add: erro_relatorio_def)

lemma Status200_not_failed:
  "get_relatorio db u = Status200 rep \<Longrightarrow> \<not> retrieval_failed db u"
  using get_relatorio_failed [of db u] erro_relatorio_not_200 [of rep] by auto

lemma get_relatorio_exemplo: "get_relatorio db_exemplo ''u1'' = Status200 relatorio_exemplo"
  by code_simp


lemma get_relatorio_Status200E:
  assumes "get_relatorio db u = Status200 rep"
  obtains rs ds cs n agg info its ps where
    "receita_findMany db u = Inr rs"
    "despesa_findMany db u = Inr ds"
    "cliente_findMany db (clientesIds (receitasComCliente rs)) = Inr cs"
    "cliente_count db u = Inr n"
    "receitaItem_groupBy db u = Inr agg"
    "produto_findMany_ids db (idsVendidos agg) = Inr info"
    "receitaItem_findMany db (receitasIds rs) = Inr its"
    "produto_findMany_estoque db u = Inr ps"
proof -
  have "\<not> retrieval_failed db u"
    using assms by (rule Status200_not_failed)
  then show thesis
    by (rule get_relatorio_not_failed) (rule that)
qed

lemma not_failed_Status200:
  assumes "\<not> retrieval_failed db u"
  shows "\<exists>rep. get_relatorio db u = Status200 rep"
proof -
  from assms obtain rs ds cs n agg info its ps where q:
    "receita_findMany db u = Inr rs"
    "despesa_findMany db u = Inr ds"
    "cliente_findMany db (clientesIds (receitasComCliente rs)) = Inr cs"
    "cliente_count db u = Inr n"
    "receitaItem_groupBy db u = Inr agg"
    "produto_findMany_ids db (idsVendidos agg) = Inr info"
    "receitaItem_findMany db (receitasIds rs) = Inr its"
    "produto_findMany_estoque db u = Inr ps"
    by (rule get_relatorio_not_failed)
  show ?thesis
    using get_relatorio_ok [OF q] by blast
qed

lemma exemplo_not_failed: "\<not> retrieval_failed db_exemplo u"
  by (simp add: retrieval_failed_def db_exemplo_def)

lemma relatorio_campos:
  assumes "get_relatorio db u = Status200 rep"
  shows "\<exists>rs ds cs n agg info its ps.
     receita_findMany db u = Inr rs \<and>
     despesa_findMany db u = Inr ds \<and>
     cliente_findMany db (clientesIds (receitasComCliente rs)) = Inr cs \<and>
     receitaItem_groupBy db u = Inr agg \<and>
     produto_findMany_ids db (idsVendidos agg) = Inr info \<and>
     produto_findMany_estoque db u = Inr ps \<and>
     totais rep =
       \<lparr>t_totalReceitas = totalReceitas rs, t_totalDespesas = totalDespesas ds,
        t_lucroLiquido = lucroLiquido rs ds\<rparr> \<and>
     receitas rep =
       \<lparr>rc_categoriasMaisVendidas = categoriasMaisVendidas rs,
        rc_produtosMaisVendidos = produtosMaisVendidos agg info,
        rc_totalVendas = totalVendas rs,
        rc_valorTotalVendas = totalReceitas rs,
        rc_vendasSemItens = vendasSemItens rs its,
        rc_vendasSemAnexo = vendasSemAnexo rs\<rparr> \<and>
     despesas rep =
       \<lparr>dp_categoriasMaisDespesas = categoriasMaisDespesas ds,
        dp_valorGastoCategorias = valorGastoCategorias ds,
        dp_despesasSemAnexo = despesasSemAnexo ds\<rparr> \<and>
     clientes rep =
       \<lparr>cl_clientesQueMaisGastaram =
          clientesQueMaisGastaram (clientesMap (receitasComCliente rs) (clienteNomeMap cs)),
        cl_clientesComMaisCompras =
          clientesComMaisCompras (clientesMap (receitasComCliente rs) (clienteNomeMap cs)),
        cl_totalClientesRegistrados = n\<rparr> \<and>
     estoque rep =
       \<lparr>es_categoriasEstoque = categoriasEstoque (produtosFormatadosEstoque ps),
        es_maiorQtdUnidade = estoquePorUnidade (produtosFormatadosEstoque ps),
        es_maiorQtdKg = estoquePorKg (produtosFormatadosEstoque ps),
        es_maiorQtdMl = estoquePorL (produtosFormatadosEstoque ps)\<rparr>"
proof -
  from assms obtain rs ds cs n agg info its ps where q:
    "receita_findMany db u = Inr rs"
    "despesa_findMany db u = Inr ds"
    "cliente_findMany db (clientesIds (receitasComCliente rs)) = Inr cs"
    "cliente_count db u = Inr n"
    "receitaItem_groupBy db u = Inr agg"
    "produto_findMany_ids db (idsVendidos agg) = Inr info"
    "receitaItem_findMany db (receitasIds rs) = Inr its"
    "produto_findMany_estoque db u = Inr ps"
    by (rule get_relatorio_Status200E)
  have "Status200 rep = Status200 \<lparr>totais =
        \<lparr>t_totalReceitas = totalReceitas rs,
         t_totalDespesas = totalDespesas ds,
         t_lucroLiquido = lucroLiquido rs ds\<rparr>,
      receitas =
        \<lparr>rc_categoriasMaisVendidas = categoriasMaisVendidas rs,
         rc_produtosMaisVendidos = produtosMaisVendidos agg info,
         rc_totalVendas = totalVendas rs,
         rc_valorTotalVendas = totalReceitas rs,
         rc_vendasSemItens = vendasSemItens rs its,
         rc_vendasSemAnexo = vendasSemAnexo rs\<rparr>,
      despesas =
        \<lparr>dp_categoriasMaisDespesas = categoriasMaisDespesas ds,
         dp_valorGastoCategorias = valorGastoCategorias ds,
         dp_despesasSemAnexo = despesasSemAnexo ds\<rparr>,
      clientes =
        \<lparr>cl_clientesQueMaisGastaram =
           clientesQueMaisGastaram (clientesMap (receitasComCliente rs) (clienteNomeMap cs)),
         cl_clientesComMaisCompras =
           clientesComMaisCompras (clientesMap (receitasComCliente rs) (clienteNomeMap cs)),
         cl_totalClientesRegistrados = n\<rparr>,
      estoque =
        \<lparr>es_categoriasEstoque = categoriasEstoque (produtosFormatadosEstoque ps),
         es_maiorQtdUnidade = estoquePorUnidade (produtosFormatadosEstoque ps),
         es_maiorQtdKg = estoquePorKg (produtosFormatadosEstoque ps),
         es_maiorQtdMl = estoquePorL (produtosFormatadosEstoque ps)\<rparr>\<rparr>"
    using get_relatorio_ok [OF q] assms by simp
  then have "rep = \<lparr>totais =
        \<lparr>t_totalReceitas = totalReceitas rs,
         t_totalDespesas = totalDespesas ds,
         t_lucroLiquido = lucroLiquido rs ds\<rparr>,
      receitas =
        \<lparr>rc_categoriasMaisVendidas = categoriasMaisVendidas rs,
         rc_produtosMaisVendidos = produtosMaisVendidos agg info,
         rc_totalVendas = totalVendas rs,
         rc_valorTotalVendas = totalReceitas rs,
         rc_vendasSemItens = vendasSemItens rs its,
         rc_vendasSemAnexo = vendasSemAnexo rs\<rparr>,
      despesas =
        \<lparr>dp_categoriasMaisDespesas = categoriasMaisDespesas ds,
         dp_valorGastoCategorias = valorGastoCategorias ds,
         dp_despesasSemAnexo = despesasSemAnexo ds\<rparr>,
      clientes =
        \<lparr>cl_clientesQueMaisGastaram =
           clientesQueMaisGastaram (clientesMap (receitasComCliente rs) (clienteNomeMap cs)),
         cl_clientesComMaisCompras =
           clientesComMaisCompras (clientesMap (receitasComCliente rs) (clienteNomeMap cs)),
         cl_totalClientesRegistrados = n\<rparr>,
      estoque =
        \<lparr>es_categoriasEstoque = categoriasEstoque (produtosFormatadosEstoque ps),
         es_maiorQtdUnidade = estoquePorUnidade (produtosFormatadosEstoque ps),
         es_maiorQtdKg = estoquePorKg (produtosFormatadosEstoque ps),
         es_maiorQtdMl = estoquePorL (produtosFormatadosEstoque ps)\<rparr>\<rparr>"
    by (simp only: resposta.inject)
  with q show ?thesis
    by (intro exI [of _ rs] exI [of _ ds] exI [of _ cs] exI [of _ n] exI [of _ agg]
        exI [of _ info] exI [of _ its] exI [of _ ps]) simp
qed


lemma relatorio_receitas:
  assumes "get_relatorio db u = Status200 rep" and "receita_findMany db u = Inr rs"
  shows "rc_categoriasMaisVendidas (receitas rep) = categoriasMaisVendidas rs"
    and "rc_valorTotalVendas (receitas rep) = totalReceitas rs"
  using relatorio_campos [OF assms(1)] assms(2) by auto

lemma relatorio_produtos:
  assumes "get_relatorio db u = Status200 rep"
    and "receitaItem_groupBy db u = Inr agg"
    and "produto_findMany_ids db (idsVendidos agg) = Inr info"
  shows "rc_produtosMaisVendidos (receitas rep) = produtosMaisVendidos agg info"
  using relatorio_campos [OF assms(1)] assms(2,3) by auto


lemma relatorio_clientes:
  assumes "get_relatorio db u = Status200 rep" and "receita_findMany db u = Inr rs"
    and "cliente_findMany db (clientesIds (receitasComCliente rs)) = Inr cs"
  shows "cl_clientesQueMaisGastaram (clientes rep) =
      clientesQueMaisGastaram (clientesMap (receitasComCliente rs) (clienteNomeMap cs))"
    and "cl_clientesComMaisCompras (clientes rep) =
      clientesComMaisCompras (clientesMap (receitasComCliente rs) (clienteNomeMap cs))"
  using relatorio_campos [OF assms(1)] assms(2,3) by auto

lemma relatorio_estoque:
  assumes "get_relatorio db u = Status200 rep" and "produto_findMany_estoque db u = Inr ps"
  shows "estoque rep =
     \<lparr>es_categoriasEstoque = categoriasEstoque (produtosFormatadosEstoque ps),
      es_maiorQtdUnidade = estoquePorUnidade (produtosFormatadosEstoque ps),
      es_maiorQtdKg = estoquePorKg (produtosFormatadosEstoque ps),
      es_maiorQtdMl = estoquePorL (produtosFormatadosEstoque ps)\<rparr>"
  using relatorio_campos [OF assms(1)] assms(2) by auto

lemma exemplo_queries:
  "receita_findMany db_exemplo u = Inr receitas_exemplo"
  "despesa_findMany db_exemplo u = Inr despesas_exemplo"
  "cliente_findMany db_exemplo ids = Inr [\<lparr>c_id = 9, c_nome = ''Ana''\<rparr>]"
  "receitaItem_groupBy db_exemplo u =
     Inr [\<lparr>produtoId = 1, sum_qtdBase = Some 2500\<rparr>, \<lparr>produtoId = 2, sum_qtdBase = Some 7\<rparr>]"
  "produto_findMany_ids db_exemplo ids =
     Inr [\<lparr>p_id = Some 1, p_nome = Some ''farinha'', p_saldoBase = None,
           p_unidadeBase = Some ''G'', p_categoria = None\<rparr>]"
  "produto_findMany_estoque db_exemplo u = Inr estoque_exemplo"
  by (simp_all add: db_exemplo_def)

subsection \<open>Buckets of the client map and membership in a ranking\<close>

lemma fold_cliente:
  "foldl (\<lambda>v r. if P r then
        Some ((nullish v \<lparr>nome = nm, totalGasto = 0, contagem = 0\<rparr>)
          \<lparr>totalGasto := totalGasto (nullish v \<lparr>nome = nm, totalGasto = 0, contagem = 0\<rparr>)
              + r_valor r,
           contagem := contagem (nullish v \<lparr>nome = nm, totalGasto = 0, contagem = 0\<rparr>) + 1\<rparr>)
      else v) v0 rs =
   (if filter P rs = [] then v0
    else Some ((nullish v0 \<lparr>nome = nm, totalGasto = 0, contagem = 0\<rparr>)
      \<lparr>totalGasto := totalGasto (nullish v0 \<lparr>nome = nm, totalGasto = 0, contagem = 0\<rparr>)
          + sum_list (map r_valor (filter P rs)),
       contagem := contagem (nullish v0 \<lparr>nome = nm, totalGasto = 0, contagem = 0\<rparr>)
          + length (filter P rs)\<rparr>))"
  by (induction rs arbitrary: v0) simp_all

lemma map_get_clientesMap:
  "map_get (clientesMap rcc nomes) cid =
   (if filter (\<lambda>r. r_clienteId r = Some cid) rcc = [] then None
    else Some
      \<lparr>nome = nullish (map_get nomes cid) (''Cliente ID '' @ string_of_int cid),
       totalGasto = sum_list (map r_valor (filter (\<lambda>r. r_clienteId r = Some cid) rcc)),
       contagem = length (filter (\<lambda>r. r_clienteId r = Some cid) rcc)\<rparr>)"
proof -
  let ?nm = "nullish (map_get nomes cid) (''Cliente ID '' @ string_of_int cid)"
  have "map_get (clientesMap rcc nomes) cid =
      foldl (\<lambda>v r. if r_clienteId r = Some cid then
          Some ((nullish v \<lparr>nome = ?nm, totalGasto = 0, contagem = 0\<rparr>)
            \<lparr>totalGasto := totalGasto (nullish v \<lparr>nome = ?nm, totalGasto = 0, contagem = 0\<rparr>)
                + r_valor r,
             contagem := contagem (nullish v \<lparr>nome = ?nm, totalGasto = 0, contagem = 0\<rparr>) + 1\<rparr>)
        else v) (map_get [] cid) rcc"
    unfolding clientesMap_def
    by (rule foldl_map_get) (auto simp: Let_def map_get_map_set split: option.splits)
  then show ?thesis
    by (simp add: fold_cliente)
qed

lemma keys_clienteNomeMap: "map fst (clienteNomeMap cs) = encounter_order (map c_id cs)"
proof -
  have "map fst (clienteNomeMap cs) =
      encounter_order (List.map_filter (\<lambda>c. Some (c_id c)) cs)"
    unfolding clienteNomeMap_def
    by (rule foldl_keys_empty) (simp add: keys_map_set)
  moreover have "List.map_filter (\<lambda>c. Some (c_id c)) xs = map c_id xs"
    for xs :: "cliente list"
    by (induction xs) (simp_all add: List.map_filter_simps)
  ultimately show ?thesis by simp
qed

lemma map_get_clienteNomeMap_None:
  "cid \<notin> set (map c_id cs) \<Longrightarrow> map_get (clienteNomeMap cs) cid = None"
proof -
  assume "cid \<notin> set (map c_id cs)"
  then have "cid \<notin> set (map fst (clienteNomeMap cs))"
    by (simp add: keys_clienteNomeMap set_encounter_order)
  then show ?thesis
    by (simp add: map_get_None_iff)
qed

lemma slice_all: "length xs \<le> n \<Longrightarrow> slice 0 n xs = xs"
  by (simp add: slice_def)

lemma set_slice_subset: "set (slice 0 n xs) \<subseteq> set xs"
  by (simp add: slice_def set_take_subset)

subsection \<open>Rounding keeps the order\<close>





subsection \<open>Each list of the report is a ranking\<close>








section \<open>The claims\<close>





text \<open>
  Claim C3. The unit normalizer turns 2500 with the tag \<^verbatim>\<open>G\<close> into 2.5 \<^verbatim>\<open>kg\<close> and 2500
  with the tag \<^verbatim>\<open>ML\<close> into 2.5 \<^verbatim>\<open>L\<close>. Every other tag, an absent one included, is
  treated as the count tag: the quantity passes through unchanged with the label
  \<^verbatim>\<open>un\<close>, so 7 becomes 7 \<^verbatim>\<open>un\<close>. The properties of the source object are kept.
\<close>

theorem formatarProdutoParaExibicao_unidades:
  "(saldoDisplay (formatarProdutoParaExibicao
       (p\<lparr>p_saldoBase := Some 2500, p_unidadeBase := Some ''G''\<rparr>)) = 5 / 2 \<and>
    unidadeDisplay (formatarProdutoParaExibicao
       (p\<lparr>p_saldoBase := Some 2500, p_unidadeBase := Some ''G''\<rparr>)) = ''kg'') \<and>
   (saldoDisplay (formatarProdutoParaExibicao
       (p\<lparr>p_saldoBase := Some 2500, p_unidadeBase := Some ''ML''\<rparr>)) = 5 / 2 \<and>
    unidadeDisplay (formatarProdutoParaExibicao
       (p\<lparr>p_saldoBase := Some 2500, p_unidadeBase := Some ''ML''\<rparr>)) = ''L'') \<and>
   (tag \<noteq> Some ''G'' \<and> tag \<noteq> Some ''ML'' \<longrightarrow>
      saldoDisplay (formatarProdutoParaExibicao
        (p\<lparr>p_saldoBase := Some 7, p_unidadeBase := tag\<rparr>)) = 7 \<and>
      saldoDisplay (formatarProdutoParaExibicao
        (p\<lparr>p_saldoBase := Some q, p_unidadeBase := tag\<rparr>)) = q \<and>
      unidadeDisplay (formatarProdutoParaExibicao
        (p\<lparr>p_saldoBase := Some q, p_unidadeBase := tag\<rparr>)) = ''un'') \<and>
   produto.truncate (formatarProdutoParaExibicao p) = p"
  by (simp add: formatarProdutoParaExibicao_def produto.defs produto_exibicao.defs Let_def)

theorem formatarProdutoParaExibicao_unidades_witness:
  "Some ''UN'' \<noteq> Some ''G'' \<and> Some ''UN'' \<noteq> Some ''ML'' \<and>
   saldoDisplay (formatarProdutoParaExibicao
     (produto_vazio\<lparr>p_saldoBase := Some 7, p_unidadeBase := Some ''UN''\<rparr>)) = 7 \<and>
   unidadeDisplay (formatarProdutoParaExibicao
     (produto_vazio\<lparr>p_saldoBase := Some 7, p_unidadeBase := Some ''UN''\<rparr>)) = ''un'' \<and>
   saldoDisplay (formatarProdutoParaExibicao
     (produto_vazio\<lparr>p_saldoBase := Some 2500, p_unidadeBase := Some ''G''\<rparr>)) = 5 / 2"
  using formatarProdutoParaExibicao_unidades [of produto_vazio "Some ''UN''" 7]
  by simp

text \<open>
  Claim C4, as stated: a line item whose product id resolves to no product leaves no entry
  in \<^verbatim>\<open>produtosMaisVendidos\<close>. In \<open>db_exemplo\<close> the aggregation names the products 1 and 2
  and only product 1 is found; the report is produced and its list has an entry for
  product 2 all the same, without a name.
\<close>

theorem produtosMaisVendidos_counterexample:
  "receitaItem_groupBy db_exemplo ''u1'' =
     Inr [\<lparr>produtoId = 1, sum_qtdBase = Some 2500\<rparr>, \<lparr>produtoId = 2, sum_qtdBase = Some 7\<rparr>] \<and>
   produto_findMany_ids db_exemplo [1, 2] =
     Inr [\<lparr>p_id = Some 1, p_nome = Some ''farinha'', p_saldoBase = None,
           p_unidadeBase = Some ''G'', p_categoria = None\<rparr>] \<and>
   get_relatorio db_exemplo ''u1'' = Status200 relatorio_exemplo \<and>
   rc_produtosMaisVendidos (receitas relatorio_exemplo) =
     [\<lparr>pv_nome = Some ''farinha'', pv_quantidade = 5 / 2, pv_unidade = ''kg''\<rparr>,
      \<lparr>pv_nome = None, pv_quantidade = 7, pv_unidade = ''un''\<rparr>]"
  using get_relatorio_exemplo
  by (simp add: exemplo_queries relatorio_exemplo_def)

text \<open>
  Claim C4, amended. When no query throws, the report is produced whether or not every
  product id resolves, and \<^verbatim>\<open>produtosMaisVendidos\<close> has one entry for each row of the
  aggregation, in the order of the rows. The entry of a product id that is not found has
  no name, the summed base quantity unchanged (0 when the sum is absent) and the unit
  label \<^verbatim>\<open>un\<close>.
\<close>

theorem produtosMaisVendidos_nao_resolvido:
  assumes "\<not> retrieval_failed db usuarioId"
    and "receitaItem_groupBy db usuarioId = Inr agg"
    and "produto_findMany_ids db (idsVendidos agg) = Inr info"
  shows "\<exists>rep. get_relatorio db usuarioId = Status200 rep \<and>
           rc_produtosMaisVendidos (receitas rep) = map (produtoVendido info) agg \<and>
           (\<forall>item. find (\<lambda>p. p_id p = Some (produtoId item)) info = None \<longrightarrow>
              produtoVendido info item =
                \<lparr>pv_nome = None, pv_quantidade = nullish (sum_qtdBase item) 0,
                 pv_unidade = ''un''\<rparr>)"
proof -
  from assms(1) obtain rep where rep: "get_relatorio db usuarioId = Status200 rep"
    using not_failed_Status200 by blast
  have list: "rc_produtosMaisVendidos (receitas rep) = map (produtoVendido info) agg"
    using relatorio_produtos [OF rep assms(2,3)] by (simp add: produtosMaisVendidos_def)
  have "produtoVendido info item =
      \<lparr>pv_nome = None, pv_quantidade = nullish (sum_qtdBase item) 0, pv_unidade = ''un''\<rparr>"
    if "find (\<lambda>p. p_id p = Some (produtoId item)) info = None" for item
    using that
    by (simp add: produtoVendido_def formatarProdutoParaExibicao_def produto_vazio_def
        produto.defs produto_exibicao.defs Let_def)
  with rep list show ?thesis by blast
qed

theorem produtosMaisVendidos_nao_resolvido_witness:
  "\<not> retrieval_failed db_exemplo ''u1'' \<and>
   find (\<lambda>p. p_id p = Some 2)
     [\<lparr>p_id = Some 1, p_nome = Some ''farinha'', p_saldoBase = None,
       p_unidadeBase = Some ''G'', p_categoria = None\<rparr>] = None \<and>
   produtoVendido
     [\<lparr>p_id = Some 1, p_nome = Some ''farinha'', p_saldoBase = None,
       p_unidadeBase = Some ''G'', p_categoria = None\<rparr>]
     \<lparr>produtoId = 2, sum_qtdBase = Some 7\<rparr> =
     \<lparr>pv_nome = None, pv_quantidade = 7, pv_unidade = ''un''\<rparr> \<and>
   length (rc_produtosMaisVendidos (receitas relatorio_exemplo)) = 2"
proof -
  let ?info = "[\<lparr>p_id = Some 1, p_nome = Some ''farinha'', p_saldoBase = None,
      p_unidadeBase = Some ''G'', p_categoria = None\<rparr>]"
  have nf: "\<not> retrieval_failed db_exemplo ''u1''"
    by (rule exemplo_not_failed)
  have none: "find (\<lambda>p. p_id p = Some (produtoId \<lparr>produtoId = 2, sum_qtdBase = Some (7::rat)\<rparr>))
      ?info = None"
    by simp
  from produtosMaisVendidos_nao_resolvido [OF nf exemplo_queries(4) exemplo_queries(5)]
  obtain rep where rep: "get_relatorio db_exemplo ''u1'' = Status200 rep"
    and list: "rc_produtosMaisVendidos (receitas rep) =
      map (produtoVendido ?info)
        [\<lparr>produtoId = 1, sum_qtdBase = Some 2500\<rparr>, \<lparr>produtoId = 2, sum_qtdBase = Some 7\<rparr>]"
    and unresolved: "\<And>item. find (\<lambda>p. p_id p = Some (produtoId item)) ?info = None \<Longrightarrow>
      produtoVendido ?info item =
        \<lparr>pv_nome = None, pv_quantidade = nullish (sum_qtdBase item) 0, pv_unidade = ''un''\<rparr>"
    by blast
  from rep get_relatorio_exemplo have "rep = relatorio_exemplo"
    by simp
  with list have "length (rc_produtosMaisVendidos (receitas relatorio_exemplo)) = 2"
    by simp
  with nf none unresolved [OF none] show ?thesis
    by simp
qed




text \<open>
  Claim C6. A revenue entry whose category is absent or the empty string adds to no bucket
  of the revenue-category ranking: the ranking of the report is the ranking computed from
  the entries that remain when those are removed, and no entry of the ranking has the
  empty label.
\<close>

theorem categoriasMaisVendidas_sem_categoria:
  assumes "get_relatorio db usuarioId = Status200 rep"
    and "receita_findMany db usuarioId = Inr rs"
  shows "rc_categoriasMaisVendidas (receitas rep) =
           categoriasMaisVendidas (filter (\<lambda>r. \<not> sem_categoria (r_categoria r)) rs) \<and>
         categoriasMaisVendidas rs =
           categoriasMaisVendidas (filter (\<lambda>r. \<not> sem_categoria (r_categoria r)) rs) \<and>
         [] \<notin> set (map cc_categoria (rc_categoriasMaisVendidas (receitas rep)))"
proof -
  have eq: "categoriasMaisVendidas rs =
      categoriasMaisVendidas (filter (\<lambda>r. \<not> sem_categoria (r_categoria r)) rs)"
    by (simp add: categoriasMaisVendidas_def categoriasReceitasMap_filter)
  have "map cc_categoria (categoriasMaisVendidas rs) =
      map fst (slice 0 3 (js_sort (\<lambda>(_, a) (_, b). rat_of_nat b - rat_of_nat a)
        (categoriasReceitasMap rs)))"
    by (simp add: categoriasMaisVendidas_def comp_def case_prod_beta)
  then have "set (map cc_categoria (categoriasMaisVendidas rs)) \<subseteq>
      set (map fst (categoriasReceitasMap rs))"
    using set_take_subset [of 3 "js_sort (\<lambda>(_, a) (_, b). rat_of_nat b - rat_of_nat a)
        (categoriasReceitasMap rs)"]
    by (auto simp: slice_def set_js_sort_any)
  moreover have "[] \<notin> set (map fst (categoriasReceitasMap rs))"
    unfolding keys_categoriasReceitasMap set_encounter_order
    by (auto simp: set_map_filter sem_categoria_def split: if_splits)
  ultimately have "[] \<notin> set (map cc_categoria (categoriasMaisVendidas rs))"
    by blast
  with eq relatorio_receitas(1) [OF assms] show ?thesis
    by simp
qed

theorem categoriasMaisVendidas_sem_categoria_witness:
  "rc_categoriasMaisVendidas (receitas relatorio_exemplo) =
     categoriasMaisVendidas
       [mk_receita 1 100 (Some ''servico'') (Some 7),
        mk_receita 3 60 (Some ''venda'') (Some 7),
        mk_receita 5 10 (Some ''venda'') None]"
proof -
  have "filter (\<lambda>r. \<not> sem_categoria (r_categoria r)) receitas_exemplo =
      [mk_receita 1 100 (Some ''servico'') (Some 7),
       mk_receita 3 60 (Some ''venda'') (Some 7),
       mk_receita 5 10 (Some ''venda'') None]"
    by (simp add: receitas_exemplo_def mk_receita_def sem_categoria_def)
  with categoriasMaisVendidas_sem_categoria [OF get_relatorio_exemplo exemplo_queries(1)]
  show ?thesis by simp
qed

text \<open>
  Claim C7, as stated: a client id that resolves to no client is shown under the name
  \<^verbatim>\<open>Client ID {id}\<close>. In \<open>db_exemplo\<close> two revenue entries name client 7 and the client
  query finds client 9 only; both rankings of the report show client 7 as
  \<^verbatim>\<open>Cliente ID 7\<close>.
\<close>

theorem clientes_nome_counterexample:
  "cliente_findMany db_exemplo (clientesIds (receitasComCliente receitas_exemplo)) =
     Inr [\<lparr>c_id = 9, c_nome = ''Ana''\<rparr>] \<and>
   get_relatorio db_exemplo ''u1'' = Status200 relatorio_exemplo \<and>
   map nome (cl_clientesQueMaisGastaram (clientes relatorio_exemplo)) = [''Cliente ID 7'', ''Ana''] \<and>
   map nome (cl_clientesComMaisCompras (clientes relatorio_exemplo)) = [''Cliente ID 7'', ''Ana''] \<and>
   ''Cliente ID 7'' \<noteq> ''Client ID 7''"
  using get_relatorio_exemplo
  by (simp add: exemplo_queries relatorio_exemplo_def)

text \<open>
  Claim C7, amended. When a revenue entry of the owner names a client id, not zero, that
  the client query does not return, and no query throws, the report is produced and the
  entry of that client in the client map has the name \<^verbatim>\<open>Cliente ID {id}\<close>, with the id in
  decimal. Both client rankings take their entries from the values of that map, and each
  lists this entry when the map has no more entries than the ranking has places (5 and 3).
\<close>

theorem clientes_nome_sintetizado:
  assumes "\<not> retrieval_failed db usuarioId"
    and "receita_findMany db usuarioId = Inr rs"
    and "cliente_findMany db (clientesIds (receitasComCliente rs)) = Inr cs"
    and "r \<in> set rs" and "r_clienteId r = Some cid" and "cid \<noteq> 0"
    and "cid \<notin> set (map c_id cs)"
  shows "\<exists>rep c. get_relatorio db usuarioId = Status200 rep \<and>
           map_get (clientesMap (receitasComCliente rs) (clienteNomeMap cs)) cid = Some c \<and>
           nome c = ''Cliente ID '' @ string_of_int cid \<and>
           set (cl_clientesQueMaisGastaram (clientes rep)) \<subseteq>
             set (map snd (clientesMap (receitasComCliente rs) (clienteNomeMap cs))) \<and>
           set (cl_clientesComMaisCompras (clientes rep)) \<subseteq>
             set (map snd (clientesMap (receitasComCliente rs) (clienteNomeMap cs))) \<and>
           (length (clientesMap (receitasComCliente rs) (clienteNomeMap cs)) \<le> 5 \<longrightarrow>
              c \<in> set (cl_clientesQueMaisGastaram (clientes rep))) \<and>
           (length (clientesMap (receitasComCliente rs) (clienteNomeMap cs)) \<le> 3 \<longrightarrow>
              c \<in> set (cl_clientesComMaisCompras (clientes rep)))"
proof -
  let ?rcc = "receitasComCliente rs"
  let ?cm = "clientesMap ?rcc (clienteNomeMap cs)"
  let ?es = "filter (\<lambda>r. r_clienteId r = Some cid) ?rcc"
  let ?c = "\<lparr>nome = ''Cliente ID '' @ string_of_int cid,
      totalGasto = sum_list (map r_valor ?es), contagem = length ?es\<rparr>"
  from assms(1) obtain rep where rep: "get_relatorio db usuarioId = Status200 rep"
    using not_failed_Status200 by blast
  have "r \<in> set ?rcc"
    using assms(4-6) by (simp add: receitasComCliente_def)
  then have ne: "?es \<noteq> []"
    using assms(5) by (auto simp: filter_empty_conv)
  have "map_get (clienteNomeMap cs) cid = None"
    using assms(7) by (rule map_get_clienteNomeMap_None)
  with ne have get: "map_get ?cm cid = Some ?c"
    by (simp add: map_get_clientesMap)
  then have mem: "?c \<in> set (map snd ?cm)"
    using map_get_in_set [of ?cm cid ?c] by force
  have gastaram: "cl_clientesQueMaisGastaram (clientes rep) = clientesQueMaisGastaram ?cm"
    and compras: "cl_clientesComMaisCompras (clientes rep) = clientesComMaisCompras ?cm"
    using relatorio_clientes [OF rep assms(2,3)] by simp_all
  have sub1: "set (clientesQueMaisGastaram ?cm) \<subseteq> set (map snd ?cm)"
    unfolding clientesQueMaisGastaram_def
    using set_slice_subset [of 5 "js_sort (\<lambda>a b. totalGasto b - totalGasto a) (map snd ?cm)"]
    by (simp add: set_js_sort_any)
  have sub2: "set (clientesComMaisCompras ?cm) \<subseteq> set (map snd ?cm)"
    unfolding clientesComMaisCompras_def
    using set_slice_subset [of 3
        "js_sort (\<lambda>a b. rat_of_nat (contagem b) - rat_of_nat (contagem a)) (map snd ?cm)"]
    by (simp add: set_js_sort_any)
  have in1: "?c \<in> set (clientesQueMaisGastaram ?cm)" if "length ?cm \<le> 5"
    unfolding clientesQueMaisGastaram_def
    using that mem by (simp add: slice_all length_js_sort set_js_sort_any)
  have in2: "?c \<in> set (clientesComMaisCompras ?cm)" if "length ?cm \<le> 3"
    unfolding clientesComMaisCompras_def
    using that mem by (simp add: slice_all length_js_sort set_js_sort_any)
  show ?thesis
    using rep get sub1 sub2 in1 in2
    unfolding gastaram [symmetric] compras [symmetric]
    by (intro exI [of _ rep] exI [of _ ?c]) simp
qed

theorem clientes_nome_sintetizado_witness:
  "\<exists>c. map_get (clientesMap (receitasComCliente receitas_exemplo)
          (clienteNomeMap [\<lparr>c_id = 9, c_nome = ''Ana''\<rparr>])) 7 = Some c \<and>
        nome c = ''Cliente ID 7'' \<and>
        c \<in> set (cl_clientesQueMaisGastaram (clientes relatorio_exemplo)) \<and>
        c \<in> set (cl_clientesComMaisCompras (clientes relatorio_exemplo))"
proof -
  have r: "mk_receita 1 100 (Some ''servico'') (Some 7) \<in> set receitas_exemplo"
    by (simp add: receitas_exemplo_def)
  have k: "r_clienteId (mk_receita 1 100 (Some ''servico'') (Some 7)) = Some 7"
    by (simp add: mk_receita_def)
  have n: "(7::int) \<noteq> 0" "(7::int) \<notin> set (map c_id [\<lparr>c_id = 9, c_nome = ''Ana''\<rparr>])"
    by simp_all
  have len: "length (clientesMap (receitasComCliente receitas_exemplo)
      (clienteNomeMap [\<lparr>c_id = 9, c_nome = ''Ana''\<rparr>])) \<le> 3"
    by code_simp
  have s: "string_of_int 7 = ''7''"
    by code_simp
  from clientes_nome_sintetizado
    [OF exemplo_not_failed [of "''u1''"] exemplo_queries(1) exemplo_queries(3) r k n]
  obtain rep c where
    "get_relatorio db_exemplo ''u1'' = Status200 rep"
    "map_get (clientesMap (receitasComCliente receitas_exemplo)
      (clienteNomeMap [\<lparr>c_id = 9, c_nome = ''Ana''\<rparr>])) 7 = Some c"
    "nome c = ''Cliente ID '' @ string_of_int 7"
    "length (clientesMap (receitasComCliente receitas_exemplo)
      (clienteNomeMap [\<lparr>c_id = 9, c_nome = ''Ana''\<rparr>])) \<le> 5 \<longrightarrow>
        c \<in> set (cl_clientesQueMaisGastaram (clientes rep))"
    "length (clientesMap (receitasComCliente receitas_exemplo)
      (clienteNomeMap [\<lparr>c_id = 9, c_nome = ''Ana''\<rparr>])) \<le> 3 \<longrightarrow>
        c \<in> set (cl_clientesComMaisCompras (clientes rep))"
    by blast
  with len s get_relatorio_exemplo show ?thesis
    by (intro exI [of _ c]) simp
qed

text \<open>
  Claim C8. If one of the queries of the handler throws, the answer is the generic failure
  (status 500 with the fixed text) and carries no report; otherwise the answer is a
  report with all its sections. No other answer exists.
\<close>

theorem relatorio_tudo_ou_nada:
  "(retrieval_failed db usuarioId \<longrightarrow>
      get_relatorio db usuarioId =
        Status500 (''Erro ao gerar relat'' @ [CHR 0xC3, CHR 0xB3] @ ''rio'')) \<and>
   (\<not> retrieval_failed db usuarioId \<longrightarrow>
      (\<exists>rep. get_relatorio db usuarioId = Status200 rep))"
proof (intro conjI impI)
  assume "retrieval_failed db usuarioId"
  then show "get_relatorio db usuarioId =
      Status500 (''Erro ao gerar relat'' @ [CHR 0xC3, CHR 0xB3] @ ''rio'')"
    using get_relatorio_failed [of db usuarioId] by (simp add: erro_relatorio_def)
next
  assume "\<not> retrieval_failed db usuarioId"
  then show "\<exists>rep. get_relatorio db usuarioId = Status200 rep"
    by (rule not_failed_Status200)
qed

theorem relatorio_tudo_ou_nada_witness:
  "retrieval_failed db_falha ''u1'' \<and>
   get_relatorio db_falha ''u1'' =
     Status500 (''Erro ao gerar relat'' @ [CHR 0xC3, CHR 0xB3] @ ''rio'') \<and>
   \<not> retrieval_failed db_exemplo ''u1'' \<and>
   (\<exists>rep. get_relatorio db_exemplo ''u1'' = Status200 rep)"
proof -
  have "retrieval_failed db_falha ''u1''"
    by (simp add: retrieval_failed_def db_falha_def db_exemplo_def)
  with relatorio_tudo_ou_nada [of db_falha "''u1''"]
    relatorio_tudo_ou_nada [of db_exemplo "''u1''"] exemplo_not_failed [of "''u1''"]
  show ?thesis
    by simp
qed

text \<open>
  Claim C9. In every report the handler produces, \<^verbatim>\<open>valorTotalVendas\<close> of the revenue
  section equals \<^verbatim>\<open>totalReceitas\<close> of the totals section.
\<close>

theorem valorTotalVendas_totalReceitas:
  assumes "get_relatorio db usuarioId = Status200 rep"
  shows "rc_valorTotalVendas (receitas rep) = t_totalReceitas (totais rep)"
  using relatorio_campos [OF assms] by auto

theorem valorTotalVendas_totalReceitas_witness:
  "get_relatorio db_exemplo ''u1'' = Status200 relatorio_exemplo \<and>
   rc_valorTotalVendas (receitas relatorio_exemplo) = 260 \<and>
   t_totalReceitas (totais relatorio_exemplo) = 260"
  using valorTotalVendas_totalReceitas [OF get_relatorio_exemplo] get_relatorio_exemplo
  by (simp add: relatorio_exemplo_def)

text \<open>
  Claim C10. A product in stock whose category is absent or the empty string takes no part
  in \<^verbatim>\<open>categoriasEstoque\<close>: the ranking of the report is the ranking computed from the
  products that remain when those are removed, and every label of the ranking is the
  category, not empty, of a product in stock; no label is made up.
\<close>

theorem categoriasEstoque_sem_categoria:
  assumes "get_relatorio db usuarioId = Status200 rep"
    and "produto_findMany_estoque db usuarioId = Inr ps"
  shows "es_categoriasEstoque (estoque rep) =
           categoriasEstoque (produtosFormatadosEstoque
             (filter (\<lambda>p. \<not> sem_categoria (p_categoria p)) ps)) \<and>
         set (map cq_categoria (es_categoriasEstoque (estoque rep))) \<subseteq>
           set (List.map_filter
             (\<lambda>p. if sem_categoria (p_categoria p) then None else p_categoria p) ps)"
proof -
  let ?pfs = "produtosFormatadosEstoque ps"
  have eq: "categoriasEstoque ?pfs =
      categoriasEstoque (produtosFormatadosEstoque
        (filter (\<lambda>p. \<not> sem_categoria (p_categoria p)) ps))"
    by (simp add: categoriasEstoque_def produtosFormatadosEstoque_filter
        categoriasEstoqueMap_filter)
  have "map cq_categoria (categoriasEstoque ?pfs) =
      map fst (slice 0 3 (js_sort (\<lambda>(_, a) (_, b). b - a) (categoriasEstoqueMap ?pfs)))"
    by (simp add: categoriasEstoque_def comp_def case_prod_beta)
  then have "set (map cq_categoria (categoriasEstoque ?pfs)) \<subseteq>
      set (map fst (categoriasEstoqueMap ?pfs))"
    using set_take_subset [of 3 "js_sort (\<lambda>(_, a) (_, b). b - a) (categoriasEstoqueMap ?pfs)"]
    by (auto simp: slice_def set_js_sort_any)
  also have "\<dots> = set (List.map_filter
      (\<lambda>p. if sem_categoria (p_categoria p) then None else p_categoria p) ps)"
    unfolding keys_categoriasEstoqueMap set_encounter_order
    by (auto simp: set_map_filter produtosFormatadosEstoque_def)
  finally show ?thesis
    using eq relatorio_estoque [OF assms] by simp
qed

theorem categoriasEstoque_sem_categoria_witness:
  "es_categoriasEstoque (estoque relatorio_exemplo) =
     categoriasEstoque (produtosFormatadosEstoque
       [mk_produto ''farinha'' 2500 ''G'' (Some ''secos''),
        mk_produto ''arroz'' 1000 ''G'' (Some ''secos'')])"
proof -
  have "filter (\<lambda>p. \<not> sem_categoria (p_categoria p)) estoque_exemplo =
      [mk_produto ''farinha'' 2500 ''G'' (Some ''secos''),
       mk_produto ''arroz'' 1000 ''G'' (Some ''secos'')]"
    by (simp add: estoque_exemplo_def mk_produto_def sem_categoria_def)
  with categoriasEstoque_sem_categoria [OF get_relatorio_exemplo exemplo_queries(6)]
  show ?thesis by simp
qed

end
